theory Spec2Isabelle
  imports Main
begin

section \<open>Data model (src/types/investigator.ts)\<close>

text \<open>
  The interfaces of \<^verbatim>\<open>investigator.ts\<close> as records. A field called \<^verbatim>\<open>id\<close> in the
  source is prefixed with its interface's name, since \<open>id\<close> is the identity function of
  HOL. \<^verbatim>\<open>null\<close> is \<open>None\<close>. The field \<open>base64\<close> is declared \<^verbatim>\<open>string\<close>, but the only
  place that builds an \<^verbatim>\<open>UploadedFile\<close> fills it with \<^verbatim>\<open>split(",")[1]\<close>, which is
  \<^verbatim>\<open>undefined\<close> when the text has no comma: the model keeps that value as \<open>None\<close>.
  \<open>confidence\<close> is a JavaScript number that no function of the repository computes with.
\<close>

record UploadedFile =
  name :: string
  base64 :: "string option"
  mimeType :: string

datatype Severity = Low | Medium | High | Critical

record Finding =
  finding_id :: string
  title :: string
  description :: string
  severity :: Severity

record RedactedItem =
  redacted_id :: string
  location :: string
  speculation :: string
  confidence :: int

record Tweet =
  tweet_id :: string
  content :: string
  posted :: bool

datatype AnalysisStatus = Idle | Proposed | Analyzing | Complete

record FileInvestigatorState =
  uploadedFile :: "UploadedFile option"
  findings :: "Finding list"
  redactedContent :: "RedactedItem list"
  tweets :: "Tweet list"
  summary :: "string option"
  analysisStatus :: AnalysisStatus

definition INITIAL_STATE :: FileInvestigatorState where
  "INITIAL_STATE =
     \<lparr>uploadedFile = None, findings = [], redactedContent = [], tweets = [],
      summary = None, analysisStatus = Idle\<rparr>"

section \<open>The page (src/app/page.tsx)\<close>

text \<open>
  A handler of the page is the list of calls it makes, in the order of the source:
  \<open>SetState\<close> is the \<^verbatim>\<open>setState\<close> of \<^verbatim>\<open>useCoAgent\<close> (the one write to the shared
  document state), \<open>SetToastMessage\<close> the setter of the local toast,
  \<open>ClipboardWriteText\<close> is \<^verbatim>\<open>navigator.clipboard.writeText\<close>, and \<open>SetTimeout e ms\<close>
  is \<^verbatim>\<open>setTimeout(() => e, ms)\<close>.
\<close>

datatype page_effect =
    SetState FileInvestigatorState
  | SetToastMessage "string option"
  | ClipboardWriteText string
  | SetTimeout page_effect nat

text \<open>
  \<^verbatim>\<open>handleFileUpload\<close> reads the \<^verbatim>\<open>state\<close> of the render that created it. The object
  literal spreads it and then overwrites six fields; \<^verbatim>\<open>file ? "idle" : "idle"\<close> tests
  whether \<^verbatim>\<open>file\<close> is an object or \<^verbatim>\<open>null\<close>.
\<close>

definition handleFileUpload ::
  "FileInvestigatorState \<Rightarrow> UploadedFile option \<Rightarrow> page_effect list" where
  "handleFileUpload st file =
     [SetState (st\<lparr>uploadedFile := file,
                    analysisStatus := (case file of Some _ \<Rightarrow> Idle | None \<Rightarrow> Idle),
                    findings := [],
                    redactedContent := [],
                    tweets := [],
                    summary := None\<rparr>)]"

definition handleCopyTweet :: "string \<Rightarrow> page_effect list" where
  "handleCopyTweet c =
     [ClipboardWriteText c,
      SetToastMessage (Some ''Tweet copied! Handle with care...''),
      SetTimeout (SetToastMessage None) 2000]"

text \<open>
  \<^verbatim>\<open>handlePostTweet\<close> and \<^verbatim>\<open>handleEditTweet\<close> read \<^verbatim>\<open>stateRef.current\<close>, the first
  argument here.
\<close>

definition handlePostTweet :: "FileInvestigatorState \<Rightarrow> string \<Rightarrow> page_effect list" where
  "handlePostTweet cur i =
     [SetState (cur\<lparr>tweets :=
        map (\<lambda>t. if tweet_id t = i then t\<lparr>posted := True\<rparr> else t) (tweets cur)\<rparr>),
      SetToastMessage (Some ''Tweet posted! The truth is out there.''),
      SetTimeout (SetToastMessage None) 2000]"

definition handleEditTweet ::
  "FileInvestigatorState \<Rightarrow> string \<Rightarrow> string \<Rightarrow> page_effect list" where
  "handleEditTweet cur i newContent =
     [SetState (cur\<lparr>tweets :=
        map (\<lambda>t. if tweet_id t = i then t\<lparr>content := newContent\<rparr> else t) (tweets cur)\<rparr>)]"

text \<open>
  What the calls act on: the shared state, the ref that mirrors it, the toast, the
  texts written to the clipboard and the timers that have not fired yet.
\<close>

record page =
  state :: FileInvestigatorState
  stateRef :: FileInvestigatorState
  toastMessage :: "string option"
  clipboard :: "string list"
  timers :: "(page_effect \<times> nat) list"

fun run_page_effect :: "page_effect \<Rightarrow> page \<Rightarrow> page" where
  "run_page_effect (SetState s) p = p\<lparr>state := s\<rparr>"
| "run_page_effect (SetToastMessage m) p = p\<lparr>toastMessage := m\<rparr>"
| "run_page_effect (ClipboardWriteText c) p = p\<lparr>clipboard := clipboard p @ [c]\<rparr>"
| "run_page_effect (SetTimeout e ms) p = p\<lparr>timers := timers p @ [(e, ms)]\<rparr>"

text \<open>
  After a handler has run, the page renders again and the effect
  \<^verbatim>\<open>useEffect(() => { stateRef.current = state }, [state])\<close> copies the state into the ref.
\<close>

definition render_commit :: "page \<Rightarrow> page" where
  "render_commit p = p\<lparr>stateRef := state p\<rparr>"

definition dispatch :: "page_effect list \<Rightarrow> page \<Rightarrow> page" where
  "dispatch es p = render_commit (fold run_page_effect es p)"

text \<open>The props the page passes down: \<^verbatim>\<open>onFileUpload\<close>, \<^verbatim>\<open>onCopy\<close>, \<^verbatim>\<open>onPost\<close>, \<^verbatim>\<open>onEdit\<close>.\<close>

definition onFileUpload :: "UploadedFile option \<Rightarrow> page \<Rightarrow> page" where
  "onFileUpload file p = dispatch (handleFileUpload (state p) file) p"

definition onCopy :: "string \<Rightarrow> page \<Rightarrow> page" where
  "onCopy c p = dispatch (handleCopyTweet c) p"

definition onPost :: "string \<Rightarrow> page \<Rightarrow> page" where
  "onPost i p = dispatch (handlePostTweet (stateRef p) i) p"

definition onEdit :: "string \<Rightarrow> string \<Rightarrow> page \<Rightarrow> page" where
  "onEdit i newContent p = dispatch (handleEditTweet (stateRef p) i newContent) p"

text \<open>A timer fires: the oldest pending callback runs and the page renders again.\<close>

definition fire_timer :: "page \<Rightarrow> page" where
  "fire_timer p =
     (case timers p of
        [] \<Rightarrow> p
      | (e, ms) # rest \<Rightarrow> dispatch [e] (p\<lparr>timers := rest\<rparr>))"

section \<open>The tweets panel (src/components/dashboard-panels.tsx)\<close>

text \<open>
  The local state of \<^verbatim>\<open>TweetsPanel\<close>: the id of the tweet being edited (or \<^verbatim>\<open>null\<close>)
  and the draft. A handler of the panel returns the calls it makes on the props
  \<^verbatim>\<open>onCopy\<close>, \<^verbatim>\<open>onPost\<close>, \<^verbatim>\<open>onEdit\<close>, and the panel's new local state.
\<close>

record tweets_panel =
  editingId :: "string option"
  editContent :: string

datatype panel_call = OnCopy string | OnPost string | OnEdit string string

type_synonym panel_handler = "tweets_panel \<Rightarrow> panel_call list \<times> tweets_panel"

definition startEdit :: "Tweet \<Rightarrow> panel_handler" where
  "startEdit tweet tp = ([], tp\<lparr>editingId := Some (tweet_id tweet), editContent := content tweet\<rparr>)"

definition saveEdit :: "string \<Rightarrow> panel_handler" where
  "saveEdit i tp = ([OnEdit i (editContent tp)], tp\<lparr>editingId := None\<rparr>)"

definition cancelEdit :: panel_handler where
  "cancelEdit tp = ([], tp\<lparr>editingId := None, editContent := []\<rparr>)"

text \<open>
  The inline handlers of the rendered rows: the \<^verbatim>\<open>onChange\<close> of the textarea, and the
  \<^verbatim>\<open>onClick\<close> of the Copy and Post buttons.
\<close>

definition textareaChange :: "string \<Rightarrow> panel_handler" where
  "textareaChange v tp = ([], tp\<lparr>editContent := v\<rparr>)"

definition copyClick :: "Tweet \<Rightarrow> panel_handler" where
  "copyClick tweet tp = ([OnCopy (content tweet)], tp)"

definition postClick :: "Tweet \<Rightarrow> panel_handler" where
  "postClick tweet tp = ([OnPost (tweet_id tweet)], tp)"

text \<open>
  The page mounts the panel with \<^verbatim>\<open>onCopy={handleCopyTweet}\<close>,
  \<^verbatim>\<open>onPost={handlePostTweet}\<close> and \<^verbatim>\<open>onEdit={handleEditTweet}\<close>.
\<close>

fun run_panel_call :: "panel_call \<Rightarrow> page \<Rightarrow> page" where
  "run_panel_call (OnCopy c) p = onCopy c p"
| "run_panel_call (OnPost i) p = onPost i p"
| "run_panel_call (OnEdit i c) p = onEdit i c p"

definition panel_event :: "panel_handler \<Rightarrow> page \<times> tweets_panel \<Rightarrow> page \<times> tweets_panel" where
  "panel_event h d =
     (case h (snd d) of (calls, tp') \<Rightarrow> (fold run_panel_call calls (fst d), tp'))"

text \<open>Whether a call, or the callback of a timer it sets, writes the shared state.\<close>

fun writes_state :: "page_effect \<Rightarrow> bool" where
  "writes_state (SetState s) = True"
| "writes_state (SetToastMessage m) = False"
| "writes_state (ClipboardWriteText c) = False"
| "writes_state (SetTimeout e ms) = writes_state e"

section \<open>File intake (src/components/file-upload.tsx)\<close>

text \<open>
  What \<^verbatim>\<open>handleFile\<close> reads of a browser \<^verbatim>\<open>File\<close>: its name, its declared MIME type
  (\<^verbatim>\<open>file.type\<close>) and its size in bytes.
\<close>

record File =
  file_name :: string
  file_type :: string
  file_size :: nat

text \<open>
  The calls of the component, in the order of the source: \<^verbatim>\<open>alert\<close>, the three state
  setters, \<^verbatim>\<open>reader.readAsDataURL(file)\<close> on a reader whose \<^verbatim>\<open>onload\<close> has been set,
  and the prop \<^verbatim>\<open>onFileUpload\<close>.
\<close>

datatype upload_effect =
    Alert string
  | SetIsDragging bool
  | SetIsLoading bool
  | SetLoadingMessage "string option"
  | ReadAsDataURL File
  | CallOnFileUpload "UploadedFile option"

definition LOADING_MESSAGES :: "string list" where
  "LOADING_MESSAGES =
     [''Checking flight logs...'',
      ''Cross-referencing guest lists...'',
      ''Scanning visitor records...'',
      ''Verifying document authenticity...'',
      ''Looking for suspicious black bars...'']"

definition MAX_SIZE :: nat where
  "MAX_SIZE = 10 * 1024 * 1024"

text \<open>Reading an array at an index: \<^verbatim>\<open>undefined\<close> (here \<open>None\<close>) outside the array.\<close>

definition js_index :: "'a list \<Rightarrow> int \<Rightarrow> 'a option" where
  "js_index xs i = (if 0 \<le> i \<and> i < int (length xs) then Some (xs ! nat i) else None)"

text \<open>\<^verbatim>\<open>s.split(sep)\<close> for a separator of one character.\<close>

fun js_split :: "char \<Rightarrow> string \<Rightarrow> string list" where
  "js_split sep [] = [[]]"
| "js_split sep (c # cs) =
     (if c = sep then [] # js_split sep cs
      else (case js_split sep cs of
              w # ws \<Rightarrow> (c # w) # ws
            | [] \<Rightarrow> [[c]]))"

text \<open>
  \<^verbatim>\<open>handleFile\<close>, up to the point where the asynchronous read is started. \<open>pick\<close> is the
  value of \<^verbatim>\<open>Math.floor(Math.random() * LOADING_MESSAGES.length)\<close>, an integer that the
  browser computes from a random draw in floating point; the model takes it as given
  and reads the list at it.
\<close>

definition handleFile :: "File \<Rightarrow> int \<Rightarrow> upload_effect list" where
  "handleFile file pick =
     (if file_type file \<noteq> ''application/pdf'' then [Alert ''Please upload a PDF file'']
      else if file_size file > MAX_SIZE then [Alert ''File too large. Maximum size is 10MB.'']
      else [SetIsLoading True,
            SetLoadingMessage (js_index LOADING_MESSAGES pick),
            ReadAsDataURL file])"

text \<open>
  The \<^verbatim>\<open>reader.onload\<close> that \<^verbatim>\<open>handleFile\<close> installs; \<open>dataUrl\<close> is
  \<^verbatim>\<open>e.target.result\<close>, the text the reader produced.
\<close>

definition reader_onload :: "File \<Rightarrow> string \<Rightarrow> upload_effect list" where
  "reader_onload file dataUrl =
     [CallOnFileUpload
        (Some \<lparr>name = file_name file,
               base64 = js_index (js_split (CHR '','') dataUrl) 1,
               mimeType = file_type file\<rparr>),
      SetIsLoading False]"

text \<open>
  The entry points: a drop, a change of the hidden file input (both take the first file
  of the list, if any), and the button that clears the current file.
\<close>

definition handleDrop :: "File list \<Rightarrow> int \<Rightarrow> upload_effect list" where
  "handleDrop files pick =
     SetIsDragging False # (case files of [] \<Rightarrow> [] | file # _ \<Rightarrow> handleFile file pick)"

definition handleDragOver :: "upload_effect list" where
  "handleDragOver = [SetIsDragging True]"

definition handleDragLeave :: "upload_effect list" where
  "handleDragLeave = [SetIsDragging False]"

definition inputChange :: "File list \<Rightarrow> int \<Rightarrow> upload_effect list" where
  "inputChange files pick = (case files of [] \<Rightarrow> [] | file # _ \<Rightarrow> handleFile file pick)"

definition clearClick :: "upload_effect list" where
  "clearClick = [CallOnFileUpload None]"

text \<open>
  The local state of \<^verbatim>\<open>FileUpload\<close>, the alerts shown so far, and the reads that have
  been started and whose \<^verbatim>\<open>onload\<close> has not run yet. A pending read remembers the
  state that the \<^verbatim>\<open>onFileUpload\<close> captured by its \<^verbatim>\<open>onload\<close> closes over.
\<close>

record file_upload =
  isDragging :: bool
  isLoading :: bool
  loadingMessage :: "string option"
  alerts :: "string list"
  reading :: "(File \<times> FileInvestigatorState) list"

fun run_upload_effect ::
  "FileInvestigatorState \<Rightarrow> upload_effect \<Rightarrow> page \<times> file_upload \<Rightarrow> page \<times> file_upload" where
  "run_upload_effect st (Alert m) (p, u) = (p, u\<lparr>alerts := alerts u @ [m]\<rparr>)"
| "run_upload_effect st (SetIsDragging b) (p, u) = (p, u\<lparr>isDragging := b\<rparr>)"
| "run_upload_effect st (SetIsLoading b) (p, u) = (p, u\<lparr>isLoading := b\<rparr>)"
| "run_upload_effect st (SetLoadingMessage m) (p, u) = (p, u\<lparr>loadingMessage := m\<rparr>)"
| "run_upload_effect st (ReadAsDataURL file) (p, u) = (p, u\<lparr>reading := reading u @ [(file, st)]\<rparr>)"
| "run_upload_effect st (CallOnFileUpload x) (p, u) = (dispatch (handleFileUpload st x) p, u)"

definition upload_event :: "upload_effect list \<Rightarrow> page \<times> file_upload \<Rightarrow> page \<times> file_upload" where
  "upload_event es d = fold (run_upload_effect (state (fst d))) es d"

text \<open>The oldest pending read completes with the text \<open>dataUrl\<close>.\<close>

definition read_done :: "string \<Rightarrow> page \<times> file_upload \<Rightarrow> page \<times> file_upload" where
  "read_done dataUrl d =
     (case reading (snd d) of
        [] \<Rightarrow> d
      | (file, st) # rest \<Rightarrow>
          fold (run_upload_effect st) (reader_onload file dataUrl)
            (fst d, (snd d)\<lparr>reading := rest\<rparr>))"

text \<open>
  The outcome of validation, read off the calls: the file is accepted when a read is
  started, and rejected with the alerts that are shown.
\<close>

fun starts_read :: "upload_effect \<Rightarrow> bool" where
  "starts_read (ReadAsDataURL file) = True"
| "starts_read e = False"

fun calls_onFileUpload :: "upload_effect \<Rightarrow> bool" where
  "calls_onFileUpload (CallOnFileUpload x) = True"
| "calls_onFileUpload e = False"

fun alert_text :: "upload_effect \<Rightarrow> string option" where
  "alert_text (Alert m) = Some m"
| "alert_text e = None"

definition accepted :: "upload_effect list \<Rightarrow> bool" where
  "accepted es = list_ex starts_read es"

definition alerts_shown :: "upload_effect list \<Rightarrow> string list" where
  "alerts_shown es = List.map_filter alert_text es"

section \<open>Tool cards (src/unnamed/part_000)\<close>

text \<open>The file the page imports as \<^verbatim>\<open>@/components/tool-cards\<close>.\<close>

datatype ToolStatus = InProgress | Executing | ToolComplete

definition status_text :: "ToolStatus \<Rightarrow> string" where
  "status_text s =
     (case s of InProgress \<Rightarrow> ''inProgress'' | Executing \<Rightarrow> ''executing''
      | ToolComplete \<Rightarrow> ''complete'')"

subsection \<open>The proposal card\<close>

text \<open>
  The optional callbacks \<^verbatim>\<open>onApprove\<close> and \<^verbatim>\<open>onDeny\<close> are modelled by whether they
  are given; a call of one is recorded as \<open>CallOnApprove\<close> or \<open>CallOnDeny\<close>.
\<close>

record AnalysisProposalCardProps =
  fileName :: string
  proposedAnalyses :: "string list"
  status :: ToolStatus
  hasOnApprove :: bool
  hasOnDeny :: bool

datatype response = Approved | Denied

datatype card_call = SetResponded "response option" | CallOnApprove | CallOnDeny

definition handleApprove :: "AnalysisProposalCardProps \<Rightarrow> card_call list" where
  "handleApprove props =
     SetResponded (Some Approved) # (if hasOnApprove props then [CallOnApprove] else [])"

definition handleDeny :: "AnalysisProposalCardProps \<Rightarrow> card_call list" where
  "handleDeny props =
     SetResponded (Some Denied) # (if hasOnDeny props then [CallOnDeny] else [])"

text \<open>
  What the card renders: the file name, the proposed analyses, and at the bottom either
  a confirmation line or the two buttons.
\<close>

datatype card_button = ApproveButton | DenyButton

datatype card_footer = Confirmation string | ActionButtons "card_button list"

record proposal_view =
  shown_fileName :: string
  shown_analyses :: "string list"
  footer :: card_footer

definition AnalysisProposalCard ::
  "AnalysisProposalCardProps \<Rightarrow> response option \<Rightarrow> proposal_view" where
  "AnalysisProposalCard props responded =
     \<lparr>shown_fileName = fileName props,
      shown_analyses = proposedAnalyses props,
      footer =
        (if responded = Some Approved then Confirmation ''Investigation approved''
         else if responded = Some Denied then Confirmation ''Investigation declined''
         else ActionButtons [ApproveButton, DenyButton])\<rparr>"

fun onClick :: "AnalysisProposalCardProps \<Rightarrow> card_button \<Rightarrow> card_call list" where
  "onClick props ApproveButton = handleApprove props"
| "onClick props DenyButton = handleDeny props"

text \<open>
  A mounted card: its \<open>responded\<close> state and the callbacks called so far. A click
  reaches a handler only through a button of the current rendering; \<open>click\<close> is \<open>None\<close>
  when the rendering has no such button.
\<close>

type_synonym card = "response option \<times> card_call list"

fun run_card_call :: "card_call \<Rightarrow> card \<Rightarrow> card" where
  "run_card_call (SetResponded r) (responded, called) = (r, called)"
| "run_card_call c (responded, called) = (responded, called @ [c])"

definition rendered_buttons :: "proposal_view \<Rightarrow> card_button list" where
  "rendered_buttons v = (case footer v of ActionButtons bs \<Rightarrow> bs | Confirmation t \<Rightarrow> [])"

definition click :: "AnalysisProposalCardProps \<Rightarrow> card_button \<Rightarrow> card \<Rightarrow> card option" where
  "click props b c =
     (if b \<in> set (rendered_buttons (AnalysisProposalCard props (fst c)))
      then Some (fold run_card_call (onClick props b) c)
      else None)"

text \<open>A sequence of attempted clicks; an attempt on a button that is not there does nothing.\<close>

fun interact :: "AnalysisProposalCardProps \<Rightarrow> card_button list \<Rightarrow> card \<Rightarrow> card" where
  "interact props [] c = c"
| "interact props (b # bs) c =
     interact props bs (case click props b c of Some c' \<Rightarrow> c' | None \<Rightarrow> c)"

definition mounted_card :: card where
  "mounted_card = (None, [])"

subsection \<open>The default tool card\<close>

text \<open>
  A value of type \<^verbatim>\<open>unknown\<close>. \<^verbatim>\<open>JSON.stringify(v, null, 2)\<close> is the parameter
  \<open>stringify\<close> of the rendering.
\<close>

datatype js_value =
    JUndefined
  | JNull
  | JBool bool
  | JNum int
  | JStr string
  | JArr "js_value list"
  | JObj "(string \<times> js_value) list"

record DefaultToolCardProps =
  tool_name :: string
  tool_status :: ToolStatus
  args :: js_value
  result :: js_value

record tool_details =
  arguments_pre :: string
  result_pre :: "string option"

record tool_card_view =
  header_name :: string
  badge_text :: string
  badge_class :: string
  details :: "tool_details option"

definition DefaultToolCard ::
  "(js_value \<Rightarrow> string) \<Rightarrow> DefaultToolCardProps \<Rightarrow> bool \<Rightarrow> tool_card_view" where
  "DefaultToolCard stringify props expanded =
     \<lparr>header_name = tool_name props,
      badge_text = status_text (tool_status props),
      badge_class =
        (if tool_status props = ToolComplete then ''bg-green-100 text-green-700''
         else ''bg-blue-100 text-blue-700''),
      details =
        (if expanded
         then Some \<lparr>arguments_pre = stringify (args props),
                    result_pre =
                      (if result props \<noteq> JUndefined \<and> result props \<noteq> JNull
                       then Some (stringify (result props)) else None)\<rparr>
         else None)\<rparr>"

text \<open>The \<^verbatim>\<open>onClick\<close> of the card's button: \<^verbatim>\<open>setExpanded(!expanded)\<close>.\<close>

definition toggleExpanded :: "bool \<Rightarrow> bool" where
  "toggleExpanded expanded = (\<not> expanded)"

text \<open>
  A tool-call event as the page receives it, and the \<^verbatim>\<open>render\<close> that the page gives to
  \<^verbatim>\<open>useDefaultTool\<close>.
\<close>

record tool_call =
  call_name :: string
  call_status :: ToolStatus
  call_args :: js_value
  call_result :: js_value

definition useDefaultTool_render ::
  "(js_value \<Rightarrow> string) \<Rightarrow> tool_call \<Rightarrow> bool \<Rightarrow> tool_card_view" where
  "useDefaultTool_render stringify props expanded =
     DefaultToolCard stringify
       \<lparr>tool_name = call_name props, tool_status = call_status props,
        args = call_args props, result = call_result props\<rparr>
       expanded"

section \<open>Example values\<close>

definition report_pdf :: UploadedFile where
  "report_pdf = \<lparr>name = ''report.pdf'', base64 = Some ''JVBERi0='', mimeType = ''application/pdf''\<rparr>"

definition tweet1 :: Tweet where
  "tweet1 = \<lparr>tweet_id = ''t1'', content = ''old text'', posted = False\<rparr>"

definition tweet2 :: Tweet where
  "tweet2 = \<lparr>tweet_id = ''t2'', content = ''second'', posted = False\<rparr>"

definition finding1 :: Finding where
  "finding1 = \<lparr>finding_id = ''f1'', title = ''Flight log'', description = ''page 3'',
                severity = High\<rparr>"

definition redacted1 :: RedactedItem where
  "redacted1 = \<lparr>redacted_id = ''r1'', location = ''page 2'', speculation = ''a name'',
                 confidence = 70\<rparr>"

definition analysed_state :: FileInvestigatorState where
  "analysed_state =
     \<lparr>uploadedFile = Some report_pdf, findings = [finding1], redactedContent = [redacted1],
      tweets = [tweet1, tweet2, tweet1\<lparr>content := ''duplicate id''\<rparr>],
      summary = Some ''# Summary'', analysisStatus = Complete\<rparr>"

definition analysed_page :: page where
  "analysed_page =
     \<lparr>state = analysed_state, stateRef = analysed_state, toastMessage = None,
      clipboard = [], timers = []\<rparr>"

definition idle_panel :: tweets_panel where
  "idle_panel = \<lparr>editingId = None, editContent = []\<rparr>"

definition editing_panel :: tweets_panel where
  "editing_panel = \<lparr>editingId = Some ''t2'', editContent = ''left over''\<rparr>"

definition idle_upload :: file_upload where
  "idle_upload =
     \<lparr>isDragging = True, isLoading = False, loadingMessage = Some [], alerts = [], reading = []\<rparr>"

definition notes_as_text :: File where
  "notes_as_text = \<lparr>file_name = ''notes.pdf'', file_type = ''text/plain'', file_size = 2048\<rparr>"

definition empty_pdf :: File where
  "empty_pdf = \<lparr>file_name = ''empty.pdf'', file_type = ''application/pdf'', file_size = 0\<rparr>"

definition limit_pdf :: File where
  "limit_pdf = \<lparr>file_name = ''limit.pdf'', file_type = ''application/pdf'', file_size = 10485760\<rparr>"

definition big_pdf :: File where
  "big_pdf = \<lparr>file_name = ''big.pdf'', file_type = ''application/pdf'', file_size = 10485761\<rparr>"

definition renamed_pdf :: File where
  "renamed_pdf = \<lparr>file_name = ''no extension'', file_type = ''application/pdf'', file_size = 0\<rparr>"

definition proposal_props :: AnalysisProposalCardProps where
  "proposal_props =
     \<lparr>fileName = ''report.pdf'', proposedAnalyses = [''findings'', ''tweets''],
      status = Executing, hasOnApprove = True, hasOnDeny = True\<rparr>"

definition lookup_call :: tool_call where
  "lookup_call =
     \<lparr>call_name = ''lookup_flight'', call_status = ToolComplete,
      call_args = JObj [(''tail'', JStr ''N908JE'')], call_result = JNum 3\<rparr>"

definition pending_call :: tool_call where
  "pending_call =
     \<lparr>call_name = ''lookup_flight'', call_status = Executing,
      call_args = JObj [(''tail'', JStr ''N908JE'')], call_result = JNull\<rparr>"

definition started_call :: tool_call where
  "started_call =
     \<lparr>call_name = ''update_findings'', call_status = InProgress,
      call_args = JObj [], call_result = JUndefined\<rparr>"

definition show_kind :: "js_value \<Rightarrow> string" where
  "show_kind v =
     (case v of JUndefined \<Rightarrow> ''undefined'' | JNull \<Rightarrow> ''null'' | JBool b \<Rightarrow> ''boolean''
      | JNum n \<Rightarrow> ''number'' | JStr s \<Rightarrow> ''string'' | JArr vs \<Rightarrow> ''array''
      | JObj kvs \<Rightarrow> ''object'')"

section \<open>File upload resets the analysis\<close>

lemma dispatch_handleFileUpload:
  "state (dispatch (handleFileUpload st file) p) =
     \<lparr>uploadedFile = file, findings = [], redactedContent = [], tweets = [],
      summary = None, analysisStatus = Idle\<rparr>"
  by (cases "file") (simp_all add: dispatch_def handleFileUpload_def render_commit_def)

text \<open>
  C1. Whatever the prior state and whatever is uploaded (a file or \<^verbatim>\<open>null\<close>),
  \<^verbatim>\<open>handleFileUpload\<close> makes exactly one call, one \<^verbatim>\<open>setState\<close>, and the state it
  writes holds the uploaded value together with empty findings, empty redacted content,
  empty tweets and no summary; that written state is the page's state afterwards.
\<close>

theorem handleFileUpload_resets_results:
  "handleFileUpload (state p) file = [SetState (state (onFileUpload file p))] \<and>
   uploadedFile (state (onFileUpload file p)) = file \<and>
   findings (state (onFileUpload file p)) = [] \<and>
   redactedContent (state (onFileUpload file p)) = [] \<and>
   tweets (state (onFileUpload file p)) = [] \<and>
   summary (state (onFileUpload file p)) = None"
  by (cases "file") (simp_all add: onFileUpload_def dispatch_def handleFileUpload_def render_commit_def)

theorem handleFileUpload_resets_results_witness:
  "handleFileUpload analysed_state None = [SetState (INITIAL_STATE)] \<and>
   tweets analysed_state \<noteq> [] \<and>
   tweets (state (onFileUpload None analysed_page)) = [] \<and>
   summary (state (onFileUpload None analysed_page)) = None"
  using handleFileUpload_resets_results [of analysed_page None]
  by (simp add: analysed_page_def analysed_state_def INITIAL_STATE_def handleFileUpload_def)

text \<open>
  C10. Whether a file or \<^verbatim>\<open>null\<close> is passed, \<^verbatim>\<open>handleFileUpload\<close> leaves
  \<open>analysisStatus\<close> at \<open>idle\<close>, never at \<open>proposed\<close>, \<open>analyzing\<close> or \<open>complete\<close>.
\<close>

theorem handleFileUpload_status_idle:
  "analysisStatus (state (onFileUpload (Some f) p)) = Idle \<and>
   analysisStatus (state (onFileUpload None p)) = Idle \<and>
   analysisStatus (state (onFileUpload file p)) \<notin> {Proposed, Analyzing, Complete}"
  by (simp add: onFileUpload_def dispatch_handleFileUpload)

theorem handleFileUpload_status_idle_witness:
  "analysisStatus (state analysed_page) = Complete \<and>
   analysisStatus (state (onFileUpload (Some report_pdf) analysed_page)) = Idle \<and>
   analysisStatus (state (onFileUpload None analysed_page)) = Idle"
  using handleFileUpload_status_idle [of report_pdf analysed_page None]
  by (simp add: analysed_page_def analysed_state_def)

section \<open>Tweet actions\<close>

lemma state_onEdit:
  "state (onEdit i c p) =
     (stateRef p)\<lparr>tweets :=
        map (\<lambda>t. if tweet_id t = i then t\<lparr>content := c\<rparr> else t) (tweets (stateRef p))\<rparr>"
  by (simp add: onEdit_def dispatch_def handleEditTweet_def render_commit_def)

lemma state_onPost:
  "state (onPost i p) =
     (stateRef p)\<lparr>tweets :=
        map (\<lambda>t. if tweet_id t = i then t\<lparr>posted := True\<rparr> else t) (tweets (stateRef p))\<rparr>"
  by (simp add: onPost_def dispatch_def handlePostTweet_def render_commit_def)

lemma stateRef_dispatch: "stateRef (dispatch es p) = state (dispatch es p)"
  by (simp add: dispatch_def render_commit_def)

lemma panel_event_saveEdit:
  "fst (panel_event (saveEdit i) (p, tp)) = onEdit i (editContent tp) p"
  by (simp add: panel_event_def saveEdit_def)

lemma panel_event_postClick:
  "fst (panel_event (postClick t) (p, tp)) = onPost (tweet_id t) p"
  by (simp add: panel_event_def postClick_def)

text \<open>
  C4. On a page whose ref mirrors its state, saving an edit of tweet \<open>t1\<close> with the
  draft \<open>newContent\<close> keeps the length and order of the tweets; at every position the
  id and the posted flag are as before, a tweet with id \<open>t1\<close> has the new content, any
  other tweet is the same tweet; and the uploaded file, the findings, the redacted
  content, the summary and the analysis status are as before.
\<close>

theorem saveEdit_changes_only_content:
  assumes "stateRef p = state p"
  shows "let s = state p;
             s' = state (fst (panel_event (saveEdit t1) (p, tp\<lparr>editContent := newContent\<rparr>)))
         in length (tweets s') = length (tweets s) \<and>
            (\<forall>k < length (tweets s).
               tweet_id (tweets s' ! k) = tweet_id (tweets s ! k) \<and>
               posted (tweets s' ! k) = posted (tweets s ! k) \<and>
               (tweet_id (tweets s ! k) = t1 \<longrightarrow> content (tweets s' ! k) = newContent) \<and>
               (tweet_id (tweets s ! k) \<noteq> t1 \<longrightarrow> tweets s' ! k = tweets s ! k)) \<and>
            uploadedFile s' = uploadedFile s \<and>
            findings s' = findings s \<and>
            redactedContent s' = redactedContent s \<and>
            summary s' = summary s \<and>
            analysisStatus s' = analysisStatus s"
  unfolding Let_def panel_event_saveEdit state_onEdit assms by simp

theorem saveEdit_changes_only_content_witness:
  "stateRef analysed_page = state analysed_page \<and>
   tweets (state analysed_page) = [tweet1, tweet2, tweet1\<lparr>content := ''duplicate id''\<rparr>] \<and>
   tweets (state (fst (panel_event (saveEdit ''t1'')
       (analysed_page, idle_panel\<lparr>editContent := ''new text''\<rparr>))))
     = [tweet1\<lparr>content := ''new text''\<rparr>, tweet2, tweet1\<lparr>content := ''new text''\<rparr>] \<and>
   summary (state (fst (panel_event (saveEdit ''t1'')
       (analysed_page, idle_panel\<lparr>editContent := ''new text''\<rparr>))))
     = Some ''# Summary''"
  using saveEdit_changes_only_content
    [where p = analysed_page and ?t1.0 = "''t1''" and tp = idle_panel and newContent = "''new text''"]
  by (simp add: analysed_page_def analysed_state_def idle_panel_def tweet1_def tweet2_def
      panel_event_saveEdit state_onEdit)

text \<open>
  C5. On a page whose ref mirrors its state, the Post button of a tweet with id \<open>t1\<close>
  keeps the length and order of the tweets; a tweet with id \<open>t1\<close> becomes posted with its
  id and content as before, any other tweet is the same tweet; the other fields of the
  state are as before; and pressing Post a second time writes the same state again.
\<close>

theorem postTweet_sets_posted_idempotent:
  assumes "stateRef p = state p" and "tweet_id t = t1"
  shows "let s = state p;
             d' = panel_event (postClick t) (p, tp);
             s' = state (fst d');
             s'' = state (fst (panel_event (postClick t) d'))
         in length (tweets s') = length (tweets s) \<and>
            (\<forall>k < length (tweets s).
               (tweet_id (tweets s ! k) = t1 \<longrightarrow>
                  posted (tweets s' ! k) = True \<and>
                  content (tweets s' ! k) = content (tweets s ! k) \<and>
                  tweet_id (tweets s' ! k) = t1) \<and>
               (tweet_id (tweets s ! k) \<noteq> t1 \<longrightarrow> tweets s' ! k = tweets s ! k)) \<and>
            uploadedFile s' = uploadedFile s \<and>
            findings s' = findings s \<and>
            redactedContent s' = redactedContent s \<and>
            summary s' = summary s \<and>
            analysisStatus s' = analysisStatus s \<and>
            s'' = s'"
proof -
  have twice: "state (onPost t1 (onPost t1 p)) = state (onPost t1 p)"
    unfolding state_onPost [of t1 "onPost t1 p"]
    unfolding onPost_def stateRef_dispatch
    unfolding onPost_def [symmetric] state_onPost
    by (simp add: comp_def)
  have again: "panel_event (postClick t) (panel_event (postClick t) (p, tp))
                 = (onPost t1 (onPost t1 p), tp)"
    by (simp add: panel_event_def postClick_def assms(2))
  show ?thesis
    unfolding Let_def again panel_event_postClick assms(2) fst_conv twice
    unfolding state_onPost assms(1)
    by simp
qed

theorem postTweet_sets_posted_idempotent_witness:
  "stateRef analysed_page = state analysed_page \<and> tweet_id tweet1 = ''t1'' \<and>
   tweets (state (fst (panel_event (postClick tweet1) (analysed_page, idle_panel))))
     = [tweet1\<lparr>posted := True\<rparr>, tweet2, tweet1\<lparr>content := ''duplicate id'', posted := True\<rparr>] \<and>
   state (fst (panel_event (postClick tweet1) (panel_event (postClick tweet1) (analysed_page, idle_panel))))
     = state (fst (panel_event (postClick tweet1) (analysed_page, idle_panel)))"
  using postTweet_sets_posted_idempotent
    [where p = analysed_page and t = tweet1 and ?t1.0 = "''t1''" and tp = idle_panel]
  by (simp add: analysed_page_def analysed_state_def idle_panel_def tweet1_def tweet2_def
      panel_event_postClick state_onPost Let_def)

lemma state_run_page_effect:
  "\<not> writes_state e \<Longrightarrow> state (run_page_effect e p) = state p"
  by (cases e) simp_all

text \<open>
  C6. No call of \<^verbatim>\<open>handleCopyTweet\<close>, and no timer callback it sets, is a write of the
  shared state, so the Copy button of a tweet leaves the page's state as it was. Opening
  the editor on a tweet, typing any draft and pressing Cancel makes no call on the page
  at all: the page is the same page, and the panel is out of edit mode with an empty
  draft.
\<close>

theorem copy_and_cancel_do_not_write_state:
  "\<not> list_ex writes_state (handleCopyTweet (content t)) \<and>
   state (fst (panel_event (copyClick t) (p, tp))) = state p \<and>
   fst (cancelEdit (tp\<lparr>editingId := Some (tweet_id t), editContent := draft\<rparr>)) = [] \<and>
   panel_event cancelEdit
     (panel_event (textareaChange draft) (panel_event (startEdit t) (p, tp)))
     = (p, tp\<lparr>editingId := None, editContent := []\<rparr>)"
  by (simp add: handleCopyTweet_def panel_event_def copyClick_def onCopy_def dispatch_def
      render_commit_def cancelEdit_def textareaChange_def startEdit_def)

theorem copy_and_cancel_do_not_write_state_witness:
  "state (fst (panel_event (copyClick tweet1) (analysed_page, editing_panel))) = analysed_state \<and>
   clipboard (fst (panel_event (copyClick tweet1) (analysed_page, editing_panel))) = [''old text''] \<and>
   state (fire_timer (fst (panel_event (copyClick tweet1) (analysed_page, editing_panel))))
     = analysed_state \<and>
   panel_event cancelEdit
     (panel_event (textareaChange ''typed and dropped'')
        (panel_event (startEdit tweet1) (analysed_page, editing_panel)))
     = (analysed_page, idle_panel)"
  using copy_and_cancel_do_not_write_state
    [where t = tweet1 and p = analysed_page and tp = editing_panel and draft = "''typed and dropped''"]
  by (simp add: analysed_page_def editing_panel_def idle_panel_def tweet1_def fire_timer_def
      panel_event_def copyClick_def onCopy_def dispatch_def render_commit_def handleCopyTweet_def)

section \<open>File intake\<close>

lemma upload_event_single_alert:
  "upload_event [Alert m] (p, u) = (p, u\<lparr>alerts := alerts u @ [m]\<rparr>)"
  by (simp add: upload_event_def)

text \<open>
  C2. A file whose declared MIME type is not \<open>application/pdf\<close> makes \<^verbatim>\<open>handleFile\<close>
  show one alert and nothing else: no call of \<^verbatim>\<open>onFileUpload\<close>, no read started.
  Whether it arrives by \<^verbatim>\<open>handleFile\<close> itself, by a drop or by the file input, the page
  (and so the shared state) is the same page afterwards and no read is pending that
  was not pending before.
\<close>

theorem non_pdf_rejected_without_upload:
  assumes "file_type file \<noteq> ''application/pdf''"
  shows "handleFile file pick = [Alert ''Please upload a PDF file''] \<and>
         \<not> list_ex calls_onFileUpload (handleFile file pick) \<and>
         \<not> accepted (handleFile file pick) \<and>
         upload_event (handleFile file pick) (p, u)
           = (p, u\<lparr>alerts := alerts u @ [''Please upload a PDF file'']\<rparr>) \<and>
         upload_event (handleDrop (file # others) pick) (p, u)
           = (p, u\<lparr>isDragging := False, alerts := alerts u @ [''Please upload a PDF file'']\<rparr>) \<and>
         upload_event (inputChange (file # others) pick) (p, u)
           = (p, u\<lparr>alerts := alerts u @ [''Please upload a PDF file'']\<rparr>)"
proof -
  have rejected: "handleFile file pick = [Alert ''Please upload a PDF file'']"
    using assms by (simp add: handleFile_def)
  show ?thesis
    unfolding handleDrop_def inputChange_def list.case rejected
    by (simp add: accepted_def upload_event_def)
qed

theorem non_pdf_rejected_without_upload_witness:
  "file_type notes_as_text \<noteq> ''application/pdf'' \<and>
   handleFile notes_as_text 0 = [Alert ''Please upload a PDF file''] \<and>
   fst (upload_event (handleDrop [notes_as_text] 0) (analysed_page, idle_upload)) = analysed_page \<and>
   reading (snd (upload_event (handleDrop [notes_as_text] 0) (analysed_page, idle_upload))) = []"
  using non_pdf_rejected_without_upload
    [where ?file = notes_as_text and pick = 0 and p = analysed_page and u = idle_upload
       and others = "[]"]
  by (simp add: notes_as_text_def idle_upload_def)

text \<open>
  C3. For a file declared as \<open>application/pdf\<close>: above 10 * 1024 * 1024 bytes,
  \<^verbatim>\<open>handleFile\<close> shows one alert and nothing else, and the page is the same page with no
  new read pending; at or below that size (zero bytes included) it shows no alert, sets
  the loading state, shows the loading message at the picked position of the list
  (none when the position is outside the list) and starts reading the file, the step
  that encodes it.
\<close>

theorem pdf_size_limit:
  assumes "file_type file = ''application/pdf''"
  shows "(file_size file > 10 * 1024 * 1024 \<longrightarrow>
            handleFile file pick = [Alert ''File too large. Maximum size is 10MB.''] \<and>
            \<not> list_ex calls_onFileUpload (handleFile file pick) \<and>
            upload_event (handleFile file pick) (p, u)
              = (p, u\<lparr>alerts := alerts u @ [''File too large. Maximum size is 10MB.'']\<rparr>)) \<and>
         (file_size file \<le> 10 * 1024 * 1024 \<longrightarrow>
            (let message =
               (if 0 \<le> pick \<and> pick < 5
                then Some ([''Checking flight logs...'',
                            ''Cross-referencing guest lists...'',
                            ''Scanning visitor records...'',
                            ''Verifying document authenticity...'',
                            ''Looking for suspicious black bars...''] ! nat pick)
                else None)
             in handleFile file pick
                  = [SetIsLoading True, SetLoadingMessage message, ReadAsDataURL file] \<and>
                accepted (handleFile file pick) \<and>
                alerts_shown (handleFile file pick) = [] \<and>
                \<not> list_ex calls_onFileUpload (handleFile file pick) \<and>
                upload_event (handleFile file pick) (p, u)
                  = (p, u\<lparr>isLoading := True, loadingMessage := message,
                          reading := reading u @ [(file, state p)]\<rparr>)))"
proof -
  have rejected:
    "handleFile file pick = [Alert ''File too large. Maximum size is 10MB.'']"
    if "10 * 1024 * 1024 < file_size file"
    using assms that by (simp add: handleFile_def MAX_SIZE_def)
  have passed:
    "handleFile file pick
       = [SetIsLoading True, SetLoadingMessage (js_index LOADING_MESSAGES pick),
          ReadAsDataURL file]"
    if "file_size file \<le> 10 * 1024 * 1024"
    using assms that by (simp add: handleFile_def MAX_SIZE_def)
  have message:
    "js_index LOADING_MESSAGES pick =
       (if 0 \<le> pick \<and> pick < 5
        then Some ([''Checking flight logs...'',
                    ''Cross-referencing guest lists...'',
                    ''Scanning visitor records...'',
                    ''Verifying document authenticity...'',
                    ''Looking for suspicious black bars...''] ! nat pick)
        else None)"
    by (simp add: js_index_def LOADING_MESSAGES_def)
  have big: "file_size file > 10 * 1024 * 1024 \<longrightarrow>
            handleFile file pick = [Alert ''File too large. Maximum size is 10MB.''] \<and>
            \<not> list_ex calls_onFileUpload (handleFile file pick) \<and>
            upload_event (handleFile file pick) (p, u)
              = (p, u\<lparr>alerts := alerts u @ [''File too large. Maximum size is 10MB.'']\<rparr>)"
    by (simp add: rejected upload_event_single_alert)
  have small: "file_size file \<le> 10 * 1024 * 1024 \<Longrightarrow>
      handleFile file pick
        = [SetIsLoading True, SetLoadingMessage (js_index LOADING_MESSAGES pick),
           ReadAsDataURL file] \<and>
      accepted (handleFile file pick) \<and>
      alerts_shown (handleFile file pick) = [] \<and>
      \<not> list_ex calls_onFileUpload (handleFile file pick) \<and>
      upload_event (handleFile file pick) (p, u)
        = (p, u\<lparr>isLoading := True, loadingMessage := js_index LOADING_MESSAGES pick,
                reading := reading u @ [(file, state p)]\<rparr>)"
    by (simp add: passed accepted_def alerts_shown_def List.map_filter_simps upload_event_def)
  show ?thesis
    unfolding Let_def message [symmetric] using big small by blast
qed

theorem pdf_size_limit_witness:
  "file_type empty_pdf = ''application/pdf'' \<and> file_size empty_pdf = 0 \<and>
   accepted (handleFile empty_pdf 0) \<and>
   handleFile empty_pdf 0
     = [SetIsLoading True, SetLoadingMessage (Some ''Checking flight logs...''),
        ReadAsDataURL empty_pdf] \<and>
   uploadedFile (state (fst (read_done ''data:application/pdf;base64,''
       (upload_event (handleFile empty_pdf 0) (analysed_page, idle_upload)))))
     = Some \<lparr>name = ''empty.pdf'', base64 = Some [], mimeType = ''application/pdf''\<rparr> \<and>
   file_size limit_pdf = 10 * 1024 * 1024 \<and>
   handleFile limit_pdf 3
     = [SetIsLoading True, SetLoadingMessage (Some ''Verifying document authenticity...''),
        ReadAsDataURL limit_pdf] \<and>
   file_size big_pdf = 10485761 \<and>
   handleFile big_pdf 0 = [Alert ''File too large. Maximum size is 10MB.''] \<and>
   fst (upload_event (handleFile big_pdf 0) (analysed_page, idle_upload)) = analysed_page"
  using pdf_size_limit [where ?file = empty_pdf and pick = 0 and p = analysed_page and u = idle_upload]
    pdf_size_limit [where ?file = limit_pdf and pick = 3 and p = analysed_page and u = idle_upload]
    pdf_size_limit [where ?file = big_pdf and pick = 0 and p = analysed_page and u = idle_upload]
  by (simp add: empty_pdf_def limit_pdf_def big_pdf_def js_index_def LOADING_MESSAGES_def
      accepted_def upload_event_def read_done_def reader_onload_def idle_upload_def
      dispatch_handleFileUpload Let_def handleFile_def MAX_SIZE_def)

text \<open>
  C9. Two files with the same declared MIME type and the same size get the same
  verdict from \<^verbatim>\<open>handleFile\<close>, whatever their names and whatever loading messages are picked:
  both are accepted or neither is, and the same alerts are shown.
\<close>

theorem validation_reads_type_and_size_only:
  assumes "file_type f1 = file_type f2" and "file_size f1 = file_size f2"
  shows "accepted (handleFile f1 r1) = accepted (handleFile f2 r2) \<and>
         alerts_shown (handleFile f1 r1) = alerts_shown (handleFile f2 r2)"
  using assms
  by (simp add: handleFile_def accepted_def alerts_shown_def List.map_filter_simps)

theorem validation_reads_type_and_size_only_witness:
  "file_type empty_pdf = file_type renamed_pdf \<and> file_size empty_pdf = file_size renamed_pdf \<and>
   file_name empty_pdf \<noteq> file_name renamed_pdf \<and>
   accepted (handleFile empty_pdf 0) = accepted (handleFile renamed_pdf 3) \<and>
   accepted (handleFile renamed_pdf 3) \<and>
   alerts_shown (handleFile notes_as_text 0) = [''Please upload a PDF file'']"
  using validation_reads_type_and_size_only
    [where ?f1.0 = empty_pdf and ?f2.0 = renamed_pdf and ?r1.0 = 0 and ?r2.0 = 3]
  by (simp add: empty_pdf_def renamed_pdf_def notes_as_text_def handleFile_def accepted_def
      alerts_shown_def List.map_filter_simps MAX_SIZE_def)

section \<open>Tool cards\<close>

lemma rendered_buttons_responded:
  "rendered_buttons (AnalysisProposalCard props (Some r)) = []"
  by (cases r) (simp_all add: rendered_buttons_def AnalysisProposalCard_def)

lemma click_responded: "click props b (Some r, called) = None"
  by (simp add: click_def rendered_buttons_responded)

lemma interact_responded: "interact props bs (Some r, called) = (Some r, called)"
  by (induction bs) (simp_all add: click_responded)

lemma click_mounted:
  "click props b mounted_card =
     Some (case b of
             ApproveButton \<Rightarrow> (Some Approved, if hasOnApprove props then [CallOnApprove] else [])
           | DenyButton \<Rightarrow> (Some Denied, if hasOnDeny props then [CallOnDeny] else []))"
  by (cases b)
    (simp_all add: click_def mounted_card_def rendered_buttons_def AnalysisProposalCard_def
      handleApprove_def handleDeny_def)

lemma interact_first_click:
  "interact props (b # bs) mounted_card =
     (case b of
        ApproveButton \<Rightarrow> (Some Approved, if hasOnApprove props then [CallOnApprove] else [])
      | DenyButton \<Rightarrow> (Some Denied, if hasOnDeny props then [CallOnDeny] else []))"
  by (cases b) (simp_all add: click_mounted interact_responded)

text \<open>
  C7. Take a freshly mounted proposal card and any sequence of attempted clicks that
  starts with a click \<open>b\<close> on one of its two buttons. Afterwards the card's response is
  the one of \<open>b\<close>, its bottom line is the matching confirmation, it renders no button,
  a click on Approve or on Deny reaches no handler, and the card (its response and the
  callbacks called) is exactly as it was right after the first click: \<^verbatim>\<open>onApprove\<close> or
  \<^verbatim>\<open>onDeny\<close> has been called once, if given, and nothing else.
\<close>

theorem proposal_card_first_response_is_final:
  "let c = interact props (b # bs) mounted_card;
       v = AnalysisProposalCard props (fst c)
   in fst c = Some (case b of ApproveButton \<Rightarrow> Approved | DenyButton \<Rightarrow> Denied) \<and>
      footer v =
        Confirmation (case b of ApproveButton \<Rightarrow> ''Investigation approved''
                      | DenyButton \<Rightarrow> ''Investigation declined'') \<and>
      rendered_buttons v = [] \<and>
      click props ApproveButton c = None \<and>
      click props DenyButton c = None \<and>
      c = interact props [b] mounted_card \<and>
      snd c =
        (case b of ApproveButton \<Rightarrow> if hasOnApprove props then [CallOnApprove] else []
         | DenyButton \<Rightarrow> if hasOnDeny props then [CallOnDeny] else [])"
  unfolding Let_def interact_first_click
  by (cases b)
    (simp_all add: click_responded rendered_buttons_def AnalysisProposalCard_def)

theorem proposal_card_first_response_is_final_witness:
  "interact proposal_props [ApproveButton, DenyButton, ApproveButton] mounted_card
     = (Some Approved, [CallOnApprove]) \<and>
   interact proposal_props [DenyButton, ApproveButton] mounted_card
     = (Some Denied, [CallOnDeny]) \<and>
   footer (AnalysisProposalCard proposal_props
             (fst (interact proposal_props [DenyButton, ApproveButton] mounted_card)))
     = Confirmation ''Investigation declined'' \<and>
   rendered_buttons (AnalysisProposalCard proposal_props (fst mounted_card))
     = [ApproveButton, DenyButton]"
  using proposal_card_first_response_is_final
      [where props = proposal_props and b = ApproveButton and bs = "[DenyButton, ApproveButton]"]
    proposal_card_first_response_is_final
      [where props = proposal_props and b = DenyButton and bs = "[ApproveButton]"]
  by (simp add: Let_def proposal_props_def mounted_card_def click_def handleApprove_def
      handleDeny_def rendered_buttons_def AnalysisProposalCard_def)

text \<open>
  C8. For any tool call, whatever its name, and whether or not the card is expanded, the
  default card shows the call's name and its status as the text \<open>inProgress\<close>,
  \<open>executing\<close> or \<open>complete\<close>, and its badge has the
  green (complete) classes exactly when the status is \<open>complete\<close>. The card starts
  collapsed and one click expands it. Collapsed, it shows no details; expanded, it
  shows the formatted arguments and, exactly when the result is neither \<^verbatim>\<open>undefined\<close>
  nor \<^verbatim>\<open>null\<close>, the formatted result.
\<close>

theorem default_tool_card_shows_call:
  "let v = useDefaultTool_render stringify call expanded
   in header_name v = call_name call \<and>
      badge_text v =
        (case call_status call of InProgress \<Rightarrow> ''inProgress''
         | Executing \<Rightarrow> ''executing'' | ToolComplete \<Rightarrow> ''complete'') \<and>
      (badge_class v = ''bg-green-100 text-green-700'') = (call_status call = ToolComplete) \<and>
      badge_class v =
        (if call_status call = ToolComplete then ''bg-green-100 text-green-700''
         else ''bg-blue-100 text-blue-700'') \<and>
      toggleExpanded False = True \<and>
      details v =
        (if expanded
         then Some \<lparr>arguments_pre = stringify (call_args call),
                    result_pre =
                      (if call_result call = JUndefined \<or> call_result call = JNull then None
                       else Some (stringify (call_result call)))\<rparr>
         else None)"
  by (simp add: Let_def useDefaultTool_render_def DefaultToolCard_def toggleExpanded_def
      status_text_def)

theorem default_tool_card_shows_call_witness:
  "details (useDefaultTool_render show_kind lookup_call False) = None \<and>
   details (useDefaultTool_render show_kind lookup_call (toggleExpanded False))
     = Some \<lparr>arguments_pre = ''object'', result_pre = Some ''number''\<rparr> \<and>
   details (useDefaultTool_render show_kind pending_call (toggleExpanded False))
     = Some \<lparr>arguments_pre = ''object'', result_pre = None\<rparr> \<and>
   badge_class (useDefaultTool_render show_kind lookup_call False) = ''bg-green-100 text-green-700'' \<and>
   badge_class (useDefaultTool_render show_kind pending_call False) = ''bg-blue-100 text-blue-700'' \<and>
   badge_text (useDefaultTool_render show_kind pending_call False) = ''executing'' \<and>
   badge_text (useDefaultTool_render show_kind lookup_call False) = ''complete'' \<and>
   badge_text (useDefaultTool_render show_kind started_call True) = ''inProgress'' \<and>
   badge_class (useDefaultTool_render show_kind started_call True) = ''bg-blue-100 text-blue-700'' \<and>
   header_name (useDefaultTool_render show_kind started_call True) = ''update_findings'' \<and>
   details (useDefaultTool_render show_kind started_call True)
     = Some \<lparr>arguments_pre = ''object'', result_pre = None\<rparr> \<and>
   header_name (useDefaultTool_render show_kind pending_call False) = ''lookup_flight''"
  using default_tool_card_shows_call
      [where stringify = show_kind and call = lookup_call and expanded = False]
    default_tool_card_shows_call
      [where stringify = show_kind and call = lookup_call and expanded = True]
    default_tool_card_shows_call
      [where stringify = show_kind and call = pending_call and expanded = True]
    default_tool_card_shows_call
      [where stringify = show_kind and call = pending_call and expanded = False]
    default_tool_card_shows_call
      [where stringify = show_kind and call = started_call and expanded = True]
  by (simp add: Let_def lookup_call_def pending_call_def started_call_def show_kind_def status_text_def
      toggleExpanded_def useDefaultTool_render_def DefaultToolCard_def)

end
